theory Spec2Isabelle
  imports Complex_Main
begin

section \<open>ml-service: configuration and risk tiers\<close>

text \<open>
  Floating-point values of the Python sources are modelled as real numbers: comparisons,
  \<open>min\<close>, \<open>max\<close> and the arithmetic of the decision logic are read over the reals, and
  the decimal literals of the source (0.3, 0.5, ...) as the rationals they denote.
\<close>

text \<open>\<open>app/schemas/prediction.py\<close>: the enumeration \<open>RiskLevel\<close>.\<close>

datatype RiskLevel = VERY_LOW | LOW | MODERATE | HIGH | SEVERE

text \<open>\<open>app/core/config.py\<close>: the fields of \<open>Settings\<close> read by the prediction path.\<close>

record Settings =
  LOW_RISK_THRESHOLD :: real
  MODERATE_RISK_THRESHOLD :: real
  HIGH_RISK_THRESHOLD :: real
  SEVERE_RISK_THRESHOLD :: real
  FEATURE_COLUMNS :: "string list"
  MODEL_VERSION :: string

definition settings :: Settings where
  "settings =
     \<lparr> LOW_RISK_THRESHOLD = 3 / 10,
       MODERATE_RISK_THRESHOLD = 5 / 10,
       HIGH_RISK_THRESHOLD = 7 / 10,
       SEVERE_RISK_THRESHOLD = 9 / 10,
       FEATURE_COLUMNS =
         [''rainfall_intensity'', ''soil_moisture'', ''ndvi'', ''slope_angle'', ''elevation'',
          ''lithology_code'', ''land_use_code'', ''distance_to_road'', ''distance_to_river'',
          ''drainage_density'', ''curvature'', ''aspect'', ''twi'', ''historical_landslides'',
          ''precipitation_30d'', ''temperature'', ''humidity''],
       MODEL_VERSION = ''production'' \<rparr>"

text \<open>
  \<open>predict_single\<close>, lines 57-66: the chain of comparisons that turns the ensemble
  probability into a tier, highest threshold first.
\<close>

definition determine_risk_level :: "Settings \<Rightarrow> real \<Rightarrow> RiskLevel" where
  "determine_risk_level cfg probability =
     (if probability \<ge> SEVERE_RISK_THRESHOLD cfg then SEVERE
      else if probability \<ge> HIGH_RISK_THRESHOLD cfg then HIGH
      else if probability \<ge> MODERATE_RISK_THRESHOLD cfg then MODERATE
      else if probability \<ge> LOW_RISK_THRESHOLD cfg then LOW
      else VERY_LOW)"

section \<open>ml-service: the model registry\<close>

text \<open>
  A loaded artifact is an opaque handle. What the prediction path uses of it is
  \<open>predict_proba(features)[0][1]\<close>, the positive-class probability of the single
  input row (\<open>None\<close> when the call raises), and the optional attribute
  \<open>feature_importances_\<close> (here \<open>feature_importances\<close>). A loaded artifact is truthy.
\<close>

datatype model =
  Model (predict_proba: "real list \<Rightarrow> real option") (feature_importances: "real list option")

datatype meta_entry = MetaBool bool | MetaNum real | MetaStr string

type_synonym metadata = "string \<rightharpoonup> meta_entry"

text \<open>
  \<open>app/ml/registry/model_store.py\<close>: the state of a \<open>ModelRegistry\<close> object. The
  directory \<open>models_path\<close> is the artifact store and is not part of the state.
\<close>

record ModelRegistry =
  models :: "string \<rightharpoonup> model"
  model_metadata :: "string \<rightharpoonup> metadata"
  loaded :: bool

text \<open>\<open>__init__\<close>: empty maps, \<open>loaded = False\<close>.\<close>

definition init_registry :: ModelRegistry where
  "init_registry = \<lparr> models = Map.empty, model_metadata = Map.empty, loaded = False \<rparr>"

definition get_model :: "ModelRegistry \<Rightarrow> string \<Rightarrow> model option" where
  "get_model reg model_name = models reg model_name"

text \<open>\<open>get_metadata\<close>: \<open>self.model_metadata.get(model_name, {})\<close>.\<close>

definition get_metadata :: "ModelRegistry \<Rightarrow> string \<Rightarrow> metadata" where
  "get_metadata reg model_name =
     (case model_metadata reg model_name of None \<Rightarrow> Map.empty | Some md \<Rightarrow> md)"

text \<open>\<open>is_ready\<close>: \<open>self.loaded and "ensemble" in self.models\<close>.\<close>

definition is_ready :: "ModelRegistry \<Rightarrow> bool" where
  "is_ready reg = (loaded reg \<and> ''ensemble'' \<in> dom (models reg))"

text \<open>
  \<open>save_model\<close>: the artifact (and the metadata, when truthy, that is a non-empty
  dictionary) is written to disk, then registered in memory. \<open>disk_ok\<close> says whether
  the writes succeed; when they do not, the exception is re-raised before anything is
  registered.
\<close>

datatype registry_error = SaveFailed

definition save_model ::
  "bool \<Rightarrow> string \<Rightarrow> model \<Rightarrow> metadata option \<Rightarrow> ModelRegistry \<Rightarrow> registry_error + ModelRegistry"
where
  "save_model disk_ok model_name m md reg =
     (if \<not> disk_ok then Inl SaveFailed
      else
        let reg1 = reg \<lparr> models := (models reg)(model_name \<mapsto> m) \<rparr>
        in Inr (case md of
                  None \<Rightarrow> reg1
                | Some d \<Rightarrow>
                    if d = Map.empty then reg1
                    else reg1 \<lparr> model_metadata := (model_metadata reg1)(model_name \<mapsto> d) \<rparr>))"

definition unload_model :: "string \<Rightarrow> ModelRegistry \<Rightarrow> ModelRegistry" where
  "unload_model model_name reg =
     (if model_name \<in> dom (models reg)
      then reg \<lparr> models := (models reg)(model_name := None) \<rparr>
      else reg)"

text \<open>
  What \<open>load_models\<close> finds in the artifact store for one slot: no file, a file that
  \<open>joblib.load\<close> rejects, or a model together with what its metadata file gives (no
  file, a file that \<open>pickle.load\<close> rejects, a dictionary).
\<close>

datatype metadata_file = NoMetadata | CorruptMetadata | Metadata metadata

datatype artifact = Missing | Corrupt | Artifact model metadata_file

type_synonym artifact_store = "string \<Rightarrow> artifact"

text \<open>The keys of \<open>model_files\<close>, in the order of the dictionary literal.\<close>

definition model_files :: "string list" where
  "model_files =
     [''xgboost'', ''lightgbm'', ''random_forest'', ''svm'', ''neural_network'',
      ''ensemble'', ''preprocessor'', ''pca'']"

text \<open>
  One round of the loading loop, on the registry and \<open>loaded_count\<close>. The model is
  registered before its metadata is read, so a metadata file that fails to load leaves the
  model registered and the count unchanged.
\<close>

definition load_one :: "artifact_store \<Rightarrow> string \<Rightarrow> ModelRegistry \<times> nat \<Rightarrow> ModelRegistry \<times> nat" where
  "load_one store model_name st =
     (case st of (reg, loaded_count) \<Rightarrow>
        (case store model_name of
           Missing \<Rightarrow> (reg, loaded_count)
         | Corrupt \<Rightarrow> (reg, loaded_count)
         | Artifact m mf \<Rightarrow>
             let reg1 = reg \<lparr> models := (models reg)(model_name \<mapsto> m) \<rparr>
             in (case mf of
                   NoMetadata \<Rightarrow> (reg1, loaded_count + 1)
                 | CorruptMetadata \<Rightarrow> (reg1, loaded_count)
                 | Metadata d \<Rightarrow>
                     (reg1 \<lparr> model_metadata := (model_metadata reg1)(model_name \<mapsto> d) \<rparr>,
                      loaded_count + 1))))"

text \<open>
  \<open>_create_dummy_models\<close>: one random forest fitted on random data (\<open>dummy_model\<close>)
  fills the ensemble slot and the five member slots, a fitted scaler the preprocessor
  slot. Only \<open>self.models\<close> is assigned.
\<close>

definition create_dummy_models :: "model \<Rightarrow> model \<Rightarrow> ModelRegistry \<Rightarrow> ModelRegistry" where
  "create_dummy_models dummy_model scaler reg =
     reg \<lparr> models := (models reg)
       (''ensemble'' \<mapsto> dummy_model, ''xgboost'' \<mapsto> dummy_model, ''lightgbm'' \<mapsto> dummy_model,
        ''random_forest'' \<mapsto> dummy_model, ''svm'' \<mapsto> dummy_model,
        ''neural_network'' \<mapsto> dummy_model, ''preprocessor'' \<mapsto> scaler) \<rparr>"

definition load_models :: "artifact_store \<Rightarrow> model \<Rightarrow> model \<Rightarrow> ModelRegistry \<Rightarrow> ModelRegistry" where
  "load_models store dummy_model scaler reg =
     (case fold (load_one store) model_files (reg, 0) of
        (reg1, loaded_count) \<Rightarrow>
          (if loaded_count = 0 then create_dummy_models dummy_model scaler reg1 else reg1)
            \<lparr> loaded := True \<rparr>)"

section \<open>ml-service: single prediction\<close>

text \<open>
  \<open>app/schemas/prediction.py\<close>. The seventeen fields of \<open>FeatureSet\<close> are kept as the
  list of their values in declaration order, which is what \<open>model_dump().values()\<close>
  hands to the models.
\<close>

record PredictionRequest =
  req_location_name :: string
  req_latitude :: real
  req_longitude :: real
  req_features :: "real list"

record PredictionResponse =
  resp_location_name :: string
  resp_latitude :: real
  resp_longitude :: real
  resp_probability :: real
  resp_risk_level :: RiskLevel
  resp_confidence :: real
  resp_feature_importance :: "(string \<times> real) list"
  resp_model_version :: string
  resp_timestamp :: nat
  resp_recommended_actions :: "string list"

text \<open>The validator \<open>set_recommended_actions\<close>: a fixed table, one entry per tier.\<close>

fun set_recommended_actions :: "RiskLevel \<Rightarrow> string list" where
  "set_recommended_actions VERY_LOW =
     [''Continue normal monitoring'', ''Review historical data periodically'']"
| "set_recommended_actions LOW =
     [''Increase monitoring frequency'', ''Check drainage systems'', ''Monitor weather forecasts'']"
| "set_recommended_actions MODERATE =
     [''Alert local authorities'', ''Prepare evacuation routes'',
      ''Increase monitoring to hourly intervals'', ''Restrict access to vulnerable areas'']"
| "set_recommended_actions HIGH =
     [''Issue evacuation advisory'', ''Mobilize emergency services'',
      ''Continuous real-time monitoring'', ''Close roads in high-risk zones'',
      ''Activate emergency shelters'']"
| "set_recommended_actions SEVERE =
     [''IMMEDIATE EVACUATION REQUIRED'', ''Deploy rescue teams'',
      ''Establish emergency command center'', ''Block all access to danger zones'',
      ''Activate disaster response protocols'']"

text \<open>
  The exceptions of the endpoint: FastAPI's \<open>HTTPException\<close> with its status code and
  detail, a failure inside a model call, and pydantic's rejection of a response whose
  \<open>probability\<close> or \<open>confidence\<close> lies outside [0, 1]. \<open>str_exception\<close> is
  \<open>str(e)\<close>; for an \<open>HTTPException\<close> that is the status code, a colon and the detail.
\<close>

datatype http_status =
  HTTP_400_BAD_REQUEST | HTTP_500_INTERNAL_SERVER_ERROR | HTTP_503_SERVICE_UNAVAILABLE

datatype py_exception =
  HTTPException (status_code: http_status) (detail: string)
| ModelCallError
| ValidationError

fun status_digits :: "http_status \<Rightarrow> string" where
  "status_digits HTTP_400_BAD_REQUEST = ''400''"
| "status_digits HTTP_500_INTERNAL_SERVER_ERROR = ''500''"
| "status_digits HTTP_503_SERVICE_UNAVAILABLE = ''503''"

fun str_exception :: "py_exception \<Rightarrow> string" where
  "str_exception (HTTPException st d) = status_digits st @ '': '' @ d"
| "str_exception ModelCallError = ''model call failed''"
| "str_exception ValidationError = ''validation error for PredictionResponse''"

text \<open>\<open>np.std\<close>: the population standard deviation.\<close>

definition mean :: "real list \<Rightarrow> real" where
  "mean xs = sum_list xs / real (length xs)"

definition np_std :: "real list \<Rightarrow> real" where
  "np_std xs = sqrt (mean (map (\<lambda>x. (x - mean xs)\<^sup>2) xs))"

text \<open>
  Lines 84-89: the loop over the member names. A member that is not loaded is skipped; a
  loaded member whose \<open>predict_proba\<close> raises aborts the request (\<open>None\<close>).
\<close>

definition member_names :: "string list" where
  "member_names = [''xgboost'', ''lightgbm'', ''random_forest'', ''neural_network'', ''svm'']"

fun collect_predictions :: "ModelRegistry \<Rightarrow> real list \<Rightarrow> string list \<Rightarrow> real list option" where
  "collect_predictions reg feats [] = Some []"
| "collect_predictions reg feats (model_name # rest) =
     (case get_model reg model_name of
        None \<Rightarrow> collect_predictions reg feats rest
      | Some m \<Rightarrow>
          (case predict_proba m feats of
             None \<Rightarrow> None
           | Some pred \<Rightarrow> map_option ((#) pred) (collect_predictions reg feats rest)))"

text \<open>Lines 91-92: the confidence from the collected member predictions.\<close>

definition confidence_of :: "real list \<Rightarrow> real" where
  "confidence_of model_predictions =
     (let confidence = (if length model_predictions > 1 then 1 - np_std model_predictions else 8 / 10)
      in min (max confidence 0) 1)"

text \<open>
  Lines 69-81: the importances of the xgboost member zipped with the configured feature
  names and sorted by importance, largest first (a stable sort).
\<close>

definition feature_importance_of :: "Settings \<Rightarrow> ModelRegistry \<Rightarrow> (string \<times> real) list" where
  "feature_importance_of cfg reg =
     (case get_model reg ''xgboost'' of
        None \<Rightarrow> []
      | Some xgb_model \<Rightarrow>
          (case feature_importances xgb_model of
             None \<Rightarrow> []
           | Some importances \<Rightarrow>
               sort_key (\<lambda>x. - snd x) (zip (FEATURE_COLUMNS cfg) importances)))"

text \<open>
  The body of the \<open>try\<close> block of \<open>predict_single\<close>. \<open>now\<close> is the clock reading of
  \<open>datetime.utcnow()\<close>.
\<close>

definition predict_single_body ::
  "Settings \<Rightarrow> nat \<Rightarrow> ModelRegistry \<Rightarrow> PredictionRequest \<Rightarrow> py_exception + PredictionResponse"
where
  "predict_single_body cfg now reg request =
     (let feats = req_features request in
      case get_model reg ''ensemble'' of
        None \<Rightarrow> Inl (HTTPException HTTP_503_SERVICE_UNAVAILABLE ''Ensemble model not available'')
      | Some ensemble_model \<Rightarrow>
          (case predict_proba ensemble_model feats of
             None \<Rightarrow> Inl ModelCallError
           | Some probability \<Rightarrow>
               let risk_level = determine_risk_level cfg probability;
                   feature_importance = feature_importance_of cfg reg
               in (case collect_predictions reg feats member_names of
                     None \<Rightarrow> Inl ModelCallError
                   | Some model_predictions \<Rightarrow>
                       let confidence = confidence_of model_predictions
                       in if 0 \<le> probability \<and> probability \<le> 1 \<and> 0 \<le> confidence \<and> confidence \<le> 1
                          then Inr \<lparr> resp_location_name = req_location_name request,
                                     resp_latitude = req_latitude request,
                                     resp_longitude = req_longitude request,
                                     resp_probability = probability,
                                     resp_risk_level = risk_level,
                                     resp_confidence = confidence,
                                     resp_feature_importance = feature_importance,
                                     resp_model_version = MODEL_VERSION cfg,
                                     resp_timestamp = now,
                                     resp_recommended_actions = set_recommended_actions risk_level \<rparr>
                          else Inl ValidationError)))"

text \<open>
  \<open>predict_single\<close>: the handler \<open>except Exception as e\<close> catches whatever the body
  raises, the body's own \<open>HTTPException\<close> included, and raises a 500 in its place.
\<close>

definition predict_single ::
  "Settings \<Rightarrow> nat \<Rightarrow> ModelRegistry \<Rightarrow> PredictionRequest \<Rightarrow> py_exception + PredictionResponse"
where
  "predict_single cfg now reg request =
     (case predict_single_body cfg now reg request of
        Inl e \<Rightarrow>
          Inl (HTTPException HTTP_500_INTERNAL_SERVER_ERROR (''Prediction failed: '' @ str_exception e))
      | Inr response \<Rightarrow> Inr response)"

section \<open>Sample registries and requests\<close>

text \<open>A stub model that answers every input with the same probability.\<close>

definition stub_model :: "real \<Rightarrow> model" where
  "stub_model p = Model (\<lambda>_. Some p) None"

text \<open>All five member models loaded, the ensemble slot empty.\<close>

definition members_only :: ModelRegistry where
  "members_only =
     \<lparr> models = [''xgboost'' \<mapsto> stub_model (6 / 10),
                 ''lightgbm'' \<mapsto> stub_model (6 / 10),
                 ''random_forest'' \<mapsto> stub_model (6 / 10),
                 ''neural_network'' \<mapsto> stub_model (6 / 10),
                 ''svm'' \<mapsto> stub_model (6 / 10)],
       model_metadata = Map.empty, loaded = True \<rparr>"

text \<open>The ensemble and two members that agree.\<close>

definition two_member_registry :: ModelRegistry where
  "two_member_registry =
     \<lparr> models = [''ensemble'' \<mapsto> stub_model (874 / 1000),
                 ''xgboost'' \<mapsto> stub_model (6 / 10),
                 ''svm'' \<mapsto> stub_model (6 / 10)],
       model_metadata = Map.empty, loaded = True \<rparr>"

text \<open>The example request of \<open>PredictionRequest\<close>.\<close>

definition kedarnath_request :: PredictionRequest where
  "kedarnath_request =
     \<lparr> req_location_name = ''Kedarnath, Uttarakhand'', req_latitude = 307346 / 10000,
       req_longitude = 790669 / 10000,
       req_features = [1505 / 10, 653 / 10, 45 / 100, 325 / 10, 1850, 5, 3, 250, 180, 18 / 10,
                       15 / 100, 135, 85 / 10, 3, 450, 225 / 10, 78] \<rparr>"

text \<open>
  A slot counts towards \<open>loaded_count\<close> exactly when its model file loads and its
  metadata file, if there is one, loads too.
\<close>

fun loadable :: "artifact \<Rightarrow> bool" where
  "loadable (Artifact m NoMetadata) = True"
| "loadable (Artifact m (Metadata d)) = True"
| "loadable _ = False"

section \<open>server bridge: reference tables\<close>

text \<open>
  \<open>server/ml/predict.py\<close>. A pandas table is kept as its list of column labels and its
  rows; a row maps a column label to its cell, and a cell is a number or a text. Missing
  values (NaN) are outside this model.
\<close>

datatype cell = Num real | Str string

type_synonym row = "string \<rightharpoonup> cell"

record dataframe =
  columns :: "string list"
  rows :: "row list"

text \<open>\<open>df.empty\<close>: one of the two axes has length zero.\<close>

definition df_empty :: "dataframe \<Rightarrow> bool" where
  "df_empty df = (rows df = [] \<or> columns df = [])"

text \<open>
  \<open>df[name] = series\<close>: the column is overwritten where it exists and appended where it
  does not; the series has one number per row.
\<close>

definition set_column :: "dataframe \<Rightarrow> string \<Rightarrow> real list \<Rightarrow> dataframe" where
  "set_column df name series =
     \<lparr> columns = (if name \<in> set (columns df) then columns df else columns df @ [name]),
       rows = map (\<lambda>(r, v). r(name \<mapsto> Num v)) (zip (rows df) series) \<rparr>"

text \<open>The state of a \<open>LandslideMLPredictor\<close> that the prediction path reads or writes.\<close>

record LandslideMLPredictor =
  model :: model
  feature_names :: "string list option"
  events_df :: "dataframe option"
  district_df :: "dataframe option"

section \<open>server bridge: historical score\<close>

definition radians :: "real \<Rightarrow> real" where
  "radians deg = deg * pi / 180"

text \<open>\<open>np.arctan2(y, x)\<close>: the angle of the point \<open>(x, y)\<close>, in \<open>(-pi, pi]\<close>.\<close>

definition arctan2 :: "real \<Rightarrow> real \<Rightarrow> real" where
  "arctan2 y x =
     (if x > 0 then arctan (y / x)
      else if x < 0 then (if y \<ge> 0 then arctan (y / x) + pi else arctan (y / x) - pi)
      else if y > 0 then pi / 2
      else if y < 0 then - pi / 2
      else 0)"

text \<open>The local function \<open>haversine_distance\<close> of \<open>get_historical_score\<close>.\<close>

definition haversine_distance :: "real \<Rightarrow> real \<Rightarrow> real \<Rightarrow> real \<Rightarrow> real" where
  "haversine_distance lat1 lon1 lat2 lon2 =
     (let R = 6371;
          dlat = radians (lat2 - lat1);
          dlon = radians (lon2 - lon1);
          a = (sin (dlat / 2))\<^sup>2 + cos (radians lat1) * cos (radians lat2) * (sin (dlon / 2))\<^sup>2;
          c = 2 * arctan2 (sqrt a) (sqrt (1 - a))
      in R * c)"

text \<open>
  The lambda of line 152: \<open>row['latitude']\<close> and \<open>row['longitude']\<close> must be numbers,
  otherwise the arithmetic raises (\<open>None\<close>).
\<close>

definition event_distance :: "real \<Rightarrow> real \<Rightarrow> row \<Rightarrow> real option" where
  "event_distance latitude longitude r =
     (case (r ''latitude'', r ''longitude'') of
        (Some (Num lat2), Some (Num lon2)) \<Rightarrow> Some (haversine_distance latitude longitude lat2 lon2)
      | _ \<Rightarrow> None)"

text \<open>Lines 160-169, on the distances of the nearby events.\<close>

definition combined_score :: "real list \<Rightarrow> real \<Rightarrow> real" where
  "combined_score nearby radius_km =
     (let event_count = length nearby;
          avg_distance = mean nearby;
          count_score = min (real event_count / 10) 1;
          proximity_score = 1 - avg_distance / radius_km
      in count_score * (6 / 10) + proximity_score * (4 / 10))"

text \<open>
  \<open>get_historical_score\<close> returns the score and the predictor, whose events table has
  been assigned the column \<open>distance\<close> on the way. An exception inside the \<open>try\<close>
  gives 0.0; it can only come from the row-wise \<open>apply\<close>, before the assignment.
  The division by \<open>radius_km\<close> is numpy's, so a zero radius is outside this model.
\<close>

definition get_historical_score ::
  "LandslideMLPredictor \<Rightarrow> real \<Rightarrow> real \<Rightarrow> real \<Rightarrow> real \<times> LandslideMLPredictor"
where
  "get_historical_score self latitude longitude radius_km =
     (case events_df self of
        None \<Rightarrow> (0, self)
      | Some events \<Rightarrow>
          if df_empty events then (0, self)
          else if ''latitude'' \<in> set (columns events) \<and> ''longitude'' \<in> set (columns events) then
            (case those (map (event_distance latitude longitude) (rows events)) of
               None \<Rightarrow> (0, self)
             | Some distances \<Rightarrow>
                 let self1 = self \<lparr> events_df := Some (set_column events ''distance'' distances) \<rparr>;
                     nearby = filter (\<lambda>d. d \<le> radius_km) distances
                 in if length nearby = 0 then (0, self1)
                    else (combined_score nearby radius_km, self1))
          else (0, self))"

section \<open>server bridge: district lookup\<close>

record DistrictInfo =
  district_rank :: int
  district_name :: string
  state_name :: cell
  risk_multiplier :: real

definition default_district_info :: DistrictInfo where
  "default_district_info =
     \<lparr> district_rank = 0, district_name = ''Unknown'', state_name = Str ''Unknown'',
       risk_multiplier = 1 \<rparr>"

text \<open>\<open>str.lower\<close>, on ASCII letters.\<close>

definition lower_char :: "char \<Rightarrow> char" where
  "lower_char c =
     (let n = (of_char c :: nat) in if 65 \<le> n \<and> n \<le> 90 then char_of (n + 32) else c)"

definition lower :: "string \<Rightarrow> string" where
  "lower s = map lower_char s"

text \<open>
  The lambda of line 202: planar distance in degrees, with \<open>row.get(label, 0)\<close>; a text
  cell makes the subtraction raise.
\<close>

definition row_get :: "row \<Rightarrow> string \<Rightarrow> cell \<Rightarrow> cell" where
  "row_get r label dflt = (case r label of None \<Rightarrow> dflt | Some c \<Rightarrow> c)"

definition planar_distance :: "real \<Rightarrow> real \<Rightarrow> row \<Rightarrow> real option" where
  "planar_distance latitude longitude r =
     (case (row_get r ''latitude'' (Num 0), row_get r ''longitude'' (Num 0)) of
        (Num lat2, Num lon2) \<Rightarrow> Some (sqrt ((latitude - lat2)\<^sup>2 + (longitude - lon2)\<^sup>2))
      | _ \<Rightarrow> None)"

text \<open>\<open>nsmallest(1, 'dist')\<close>: the first row among those of least distance.\<close>

fun nsmallest1 :: "(real \<times> row) list \<Rightarrow> (real \<times> row) option" where
  "nsmallest1 [] = None"
| "nsmallest1 (x # xs) =
     (case nsmallest1 xs of
        None \<Rightarrow> Some x
      | Some y \<Rightarrow> if fst x \<le> fst y then Some x else Some y)"

text \<open>\<open>int(rank)\<close> on a number truncates towards zero.\<close>

definition py_int :: "real \<Rightarrow> int" where
  "py_int x = (if x \<ge> 0 then \<lfloor>x\<rfloor> else \<lceil>x\<rceil>)"

text \<open>
  \<open>int(rank)\<close> on a text: surrounding whitespace is dropped, a sign may lead, and the
  rest must be decimal digits, where single underscores may stand between two digits.
  Anything else raises (\<open>None\<close>). Texts are read as ASCII.
\<close>

definition py_isspace :: "char \<Rightarrow> bool" where
  "py_isspace c = (let n = (of_char c :: nat) in (9 \<le> n \<and> n \<le> 13) \<or> (28 \<le> n \<and> n \<le> 32))"

definition py_strip :: "string \<Rightarrow> string" where
  "py_strip s = rev (dropWhile py_isspace (rev (dropWhile py_isspace s)))"

definition digit_of :: "char \<Rightarrow> nat option" where
  "digit_of c = (let n = (of_char c :: nat) in if 48 \<le> n \<and> n \<le> 57 then Some (n - 48) else None)"

fun digits_value :: "nat \<Rightarrow> string \<Rightarrow> nat option" where
  "digits_value acc [] = Some acc"
| "digits_value acc [c] = map_option (\<lambda>v. 10 * acc + v) (digit_of c)"
| "digits_value acc (c # d # ds) =
     (if c = CHR ''_''
      then (case digit_of d of None \<Rightarrow> None | Some v \<Rightarrow> digits_value (10 * acc + v) ds)
      else (case digit_of c of None \<Rightarrow> None | Some v \<Rightarrow> digits_value (10 * acc + v) (d # ds)))"

definition unsigned_value :: "string \<Rightarrow> nat option" where
  "unsigned_value s =
     (case s of
        [] \<Rightarrow> None
      | c # cs \<Rightarrow> (case digit_of c of None \<Rightarrow> None | Some v \<Rightarrow> digits_value v cs))"

definition py_int_text :: "string \<Rightarrow> int option" where
  "py_int_text s =
     (case py_strip s of
        [] \<Rightarrow> None
      | c # cs \<Rightarrow>
          if c = CHR ''-'' then map_option (\<lambda>n. - int n) (unsigned_value cs)
          else if c = CHR ''+'' then map_option int (unsigned_value cs)
          else map_option int (unsigned_value (c # cs)))"

text \<open>
  Lines 211-225, for the district label of the nearest event: the rows of the district
  table whose \<open>district\<close> is that label up to letter case, and the record built from the
  first of them. A label that is not a text and a district table without the column
  \<open>district\<close> raise before \<open>district_info\<close> is touched, which leaves the
  defaults. So does a rank that is a text which \<open>int(rank)\<close> rejects. A rank that is
  a text which \<open>int(rank)\<close> accepts lets the rank, the name and the state be assigned,
  and then \<open>rank / 72\<close> raises: the multiplier stays at its default 1.0.
\<close>

definition district_matches :: "dataframe \<Rightarrow> string \<Rightarrow> row list" where
  "district_matches district name =
     filter (\<lambda>r. case r ''district'' of Some (Str s) \<Rightarrow> lower s = lower name | _ \<Rightarrow> False)
       (rows district)"

definition lookup_district :: "dataframe \<Rightarrow> cell \<Rightarrow> DistrictInfo" where
  "lookup_district district label =
     (case label of
        Num x \<Rightarrow> default_district_info
      | Str name \<Rightarrow>
          if ''district'' \<notin> set (columns district) then default_district_info
          else
            (case district_matches district name of
               [] \<Rightarrow> default_district_info
             | r # _ \<Rightarrow>
                 (case row_get r ''rank'' (Num 0) of
                    Str s \<Rightarrow>
                      (case py_int_text s of
                         None \<Rightarrow> default_district_info
                       | Some n \<Rightarrow>
                           \<lparr> district_rank = n,
                             district_name = name,
                             state_name = row_get r ''state'' (Str ''Unknown''),
                             risk_multiplier = 1 \<rparr>)
                  | Num rank \<Rightarrow>
                      \<lparr> district_rank = py_int rank,
                        district_name = name,
                        state_name = row_get r ''state'' (Str ''Unknown''),
                        risk_multiplier = max 1 (2 - rank / 72) \<rparr>)))"

text \<open>
  \<open>get_district_info\<close> returns the record and the predictor, whose events table has
  been assigned the column \<open>dist\<close> on the way.
\<close>

definition get_district_info ::
  "LandslideMLPredictor \<Rightarrow> real \<Rightarrow> real \<Rightarrow> DistrictInfo \<times> LandslideMLPredictor"
where
  "get_district_info self latitude longitude =
     (case district_df self of
        None \<Rightarrow> (default_district_info, self)
      | Some district \<Rightarrow>
          if df_empty district then (default_district_info, self)
          else
            (case events_df self of
               None \<Rightarrow> (default_district_info, self)
             | Some events \<Rightarrow>
                 if df_empty events then (default_district_info, self)
                 else if ''latitude'' \<in> set (columns events) \<and> ''longitude'' \<in> set (columns events) then
                   (case those (map (planar_distance latitude longitude) (rows events)) of
                      None \<Rightarrow> (default_district_info, self)
                    | Some dists \<Rightarrow>
                        let events1 = set_column events ''dist'' dists;
                            self1 = self \<lparr> events_df := Some events1 \<rparr>
                        in (case nsmallest1 (zip dists (rows events1)) of
                              None \<Rightarrow> (default_district_info, self1)
                            | Some (d, nearest) \<Rightarrow>
                                if ''district'' \<in> set (columns events1)
                                then (lookup_district district
                                        (row_get nearest ''district'' (Str ''Unknown'')), self1)
                                else (default_district_info, self1)))
                 else (default_district_info, self)))"

section \<open>server bridge: prediction\<close>

text \<open>The module-level function \<open>determine_final_risk\<close>.\<close>

definition determine_final_risk :: "real \<Rightarrow> string" where
  "determine_final_risk probability =
     (if probability < 3 / 10 then ''LOW''
      else if probability < 6 / 10 then ''MODERATE''
      else if probability < 8 / 10 then ''HIGH''
      else ''CRITICAL'')"

text \<open>
  The live readings that the backend sends are a dictionary from names to numbers;
  \<open>dict_get\<close> is \<open>features_dict.get(name, default)\<close>.
\<close>

type_synonym features_dict = "string \<rightharpoonup> real"

definition dict_get :: "features_dict \<Rightarrow> string \<Rightarrow> real \<Rightarrow> real" where
  "dict_get d name dflt = (case d name of None \<Rightarrow> dflt | Some v \<Rightarrow> v)"

text \<open>
  Lines 264-292: the dictionary \<open>mapped_features\<close> computed from the live readings
  and the current month.
\<close>

definition mapped_features :: "nat \<Rightarrow> features_dict \<Rightarrow> features_dict" where
  "mapped_features current_month d =
     (let rainfall_24h = dict_get d ''rainfall_24h'' 0;
          rainfall_72h = dict_get d ''rainfall_72h'' 0;
          eq_count = dict_get d ''earthquake_count'' 0;
          eq_mag = dict_get d ''max_earthquake_magnitude'' 0;
          pop_density = dict_get d ''population_density'' 0;
          is_monsoon = (if 6 \<le> current_month \<and> current_month \<le> 9 then 1 else 0)
      in [''rainfall_trigger_prob'' \<mapsto> min 1 ((rainfall_24h / 100 + rainfall_72h / 300) / 2),
          ''trigger_rainfall'' \<mapsto> (if rainfall_24h > 50 then 1 else 0),
          ''earthquake_trigger_prob'' \<mapsto> min 1 ((eq_count / 10 + eq_mag / 10) / 2),
          ''trigger_earthquake'' \<mapsto> (if eq_count > 0 then 1 else 0),
          ''human_activity_trigger_prob'' \<mapsto> min 1 (pop_density / 5000),
          ''trigger_anthropogenic'' \<mapsto> (if pop_density > 1000 then 1 else 0),
          ''monsoon_2014'' \<mapsto> is_monsoon,
          ''monsoon_2017'' \<mapsto> is_monsoon,
          ''field_based'' \<mapsto> 0,
          ''event_based'' \<mapsto> 1])"

definition default_feature_list :: "string list" where
  "default_feature_list =
     [''latitude'', ''longitude'', ''temperature'', ''humidity'', ''pressure'',
      ''wind_speed'', ''rainfall_24h'', ''rainfall_72h'', ''elevation'', ''slope'',
      ''earthquake_count'', ''max_earthquake_magnitude'', ''soil_moisture'',
      ''ndvi'', ''distance_to_fault'', ''population_density'']"

text \<open>
  Lines 258-311: the feature vector handed to the model. When the model declares its
  feature names (a non-empty list), line 297 builds the vector from \<open>mapped_features\<close>;
  lines 307-311 follow the \<open>if\<close>/\<open>else\<close> on both branches and assign \<open>features\<close>
  anew, from the caller's dictionary.
\<close>

definition build_features :: "LandslideMLPredictor \<Rightarrow> nat \<Rightarrow> features_dict \<Rightarrow> real list" where
  "build_features self current_month d =
     (let (feature_list, features) =
            (case feature_names self of
               Some (n # ns) \<Rightarrow>
                 (n # ns, map (\<lambda>fname. dict_get (mapped_features current_month d) fname 0) (n # ns))
             | _ \<Rightarrow> (default_feature_list, []));
          features = map (\<lambda>feature_name. dict_get d feature_name 0) feature_list
      in features)"

text \<open>Line 328: the district multiplier applied to the model's probability.\<close>

definition adjust_probability :: "real \<Rightarrow> real \<Rightarrow> real" where
  "adjust_probability probability multiplier = min (probability * multiplier) 1"

text \<open>The dictionary that \<open>predict\<close> returns; a key that is absent is \<open>None\<close>.\<close>

record predict_result =
  res_success :: bool
  res_error :: "string option"
  res_ml_probability :: real
  res_raw_probability :: "real option"
  res_risk_level :: string
  res_confidence :: real
  res_feature_count :: "nat option"
  res_district_info :: "DistrictInfo option"

text \<open>
  \<open>predict\<close>: district lookup, feature vector, model call, adjustment, tier. The model
  call is what can raise inside the \<open>try\<close>; the handler returns the failure dictionary.
\<close>

definition predict ::
  "LandslideMLPredictor \<Rightarrow> nat \<Rightarrow> features_dict \<Rightarrow> real \<Rightarrow> real \<Rightarrow> predict_result \<times> LandslideMLPredictor"
where
  "predict self current_month d latitude longitude =
     (case get_district_info self latitude longitude of
        (district_info, self1) \<Rightarrow>
          let features = build_features self1 current_month d in
          (case predict_proba (model self1) features of
             None \<Rightarrow>
               (\<lparr> res_success = False,
                  res_error = Some ''ML prediction failed: model call failed'',
                  res_ml_probability = 5 / 10,
                  res_raw_probability = None,
                  res_risk_level = ''UNKNOWN'',
                  res_confidence = 0,
                  res_feature_count = None,
                  res_district_info = None \<rparr>, self1)
           | Some probability \<Rightarrow>
               let adjusted_probability = adjust_probability probability (risk_multiplier district_info);
                   confidence = \<bar>adjusted_probability - 5 / 10\<bar> * 2;
                   risk_level =
                     (if adjusted_probability < 3 / 10 then ''LOW''
                      else if adjusted_probability < 6 / 10 then ''MODERATE''
                      else if adjusted_probability < 8 / 10 then ''HIGH''
                      else ''CRITICAL'')
               in (\<lparr> res_success = True,
                     res_error = None,
                     res_ml_probability = adjusted_probability,
                     res_raw_probability = Some probability,
                     res_risk_level = risk_level,
                     res_confidence = confidence,
                     res_feature_count = Some (length features),
                     res_district_info = Some district_info \<rparr>, self1)))"

section \<open>Sample predictors and tables\<close>

text \<open>One recorded event at the origin, in a district of rank 36.\<close>

definition sample_events :: dataframe where
  "sample_events =
     \<lparr> columns = [''latitude'', ''longitude'', ''district''],
       rows = [[''latitude'' \<mapsto> Num 0, ''longitude'' \<mapsto> Num 0, ''district'' \<mapsto> Str ''Chamoli'']] \<rparr>"

definition sample_districts :: dataframe where
  "sample_districts =
     \<lparr> columns = [''district'', ''rank'', ''state''],
       rows = [[''district'' \<mapsto> Str ''chamoli'', ''rank'' \<mapsto> Num 36, ''state'' \<mapsto> Str ''Uttarakhand'']] \<rparr>"

text \<open>A model that declares the derived feature names, and one that declares none.\<close>

definition derived_names :: "string list" where
  "derived_names =
     [''rainfall_trigger_prob'', ''trigger_rainfall'', ''earthquake_trigger_prob'',
      ''trigger_earthquake'', ''human_activity_trigger_prob'', ''trigger_anthropogenic'']"

definition sample_predictor :: LandslideMLPredictor where
  "sample_predictor =
     \<lparr> model = stub_model (5 / 10), feature_names = Some derived_names,
       events_df = Some sample_events, district_df = Some sample_districts \<rparr>"

definition failing_predictor :: LandslideMLPredictor where
  "failing_predictor =
     \<lparr> model = Model (\<lambda>_. None) None, feature_names = None,
       events_df = None, district_df = None \<rparr>"

text \<open>Heavy rain, earthquakes and a dense population.\<close>

definition heavy_rain :: features_dict where
  "heavy_rain =
     [''rainfall_24h'' \<mapsto> 100, ''rainfall_72h'' \<mapsto> 300, ''earthquake_count'' \<mapsto> 10,
      ''max_earthquake_magnitude'' \<mapsto> 10, ''population_density'' \<mapsto> 5000]"



text \<open>A district table whose rank cell is a text, and an events table without coordinates.\<close>

definition text_rank_districts :: dataframe where
  "text_rank_districts =
     \<lparr> columns = [''district'', ''rank'', ''state''],
       rows = [[''district'' \<mapsto> Str ''chamoli'', ''rank'' \<mapsto> Str ''36'', ''state'' \<mapsto> Str ''Uttarakhand'']] \<rparr>"

definition unlocated_events :: dataframe where
  "unlocated_events =
     \<lparr> columns = [''district''], rows = [[''district'' \<mapsto> Str ''Chamoli'']] \<rparr>"

definition unlocated_predictor :: LandslideMLPredictor where
  "unlocated_predictor =
     \<lparr> model = stub_model (5 / 10), feature_names = None,
       events_df = Some unlocated_events, district_df = Some sample_districts \<rparr>"

section \<open>Risk tiers partition the probabilities\<close>

text \<open>
  C1. For every probability \<open>p\<close> the risk-level mapping of \<open>predict_single\<close> yields one
  tier, and which one is decided by the four thresholds 0.3, 0.5, 0.7 and 0.9 alone:
  \<open>VERY_LOW\<close> below 0.3, \<open>LOW\<close> on [0.3, 0.5), \<open>MODERATE\<close> on [0.5, 0.7), \<open>HIGH\<close> on
  [0.7, 0.9) and \<open>SEVERE\<close> from 0.9 on. The five ranges are disjoint and cover every
  \<open>p\<close>, and each threshold itself belongs to the higher tier.
\<close>

theorem risk_tiers_partition:
  "(determine_risk_level settings p = VERY_LOW) = (p < 3 / 10) \<and>
   (determine_risk_level settings p = LOW) = (3 / 10 \<le> p \<and> p < 5 / 10) \<and>
   (determine_risk_level settings p = MODERATE) = (5 / 10 \<le> p \<and> p < 7 / 10) \<and>
   (determine_risk_level settings p = HIGH) = (7 / 10 \<le> p \<and> p < 9 / 10) \<and>
   (determine_risk_level settings p = SEVERE) = (9 / 10 \<le> p)"
  by (simp add: determine_risk_level_def settings_def)

theorem risk_tiers_partition_witness:
  "determine_risk_level settings (3 / 10) = LOW \<and>
   determine_risk_level settings (5 / 10) = MODERATE \<and>
   determine_risk_level settings (7 / 10) = HIGH \<and>
   determine_risk_level settings (9 / 10) = SEVERE \<and>
   determine_risk_level settings 0 = VERY_LOW \<and>
   determine_risk_level settings 1 = SEVERE"
  using risk_tiers_partition [of "3 / 10"] risk_tiers_partition [of "5 / 10"]
    risk_tiers_partition [of "7 / 10"] risk_tiers_partition [of "9 / 10"]
    risk_tiers_partition [of 0] risk_tiers_partition [of 1]
  by simp

section \<open>A missing ensemble slot\<close>

text \<open>
  C2. A single-prediction request made while the ensemble slot is empty should fail with
  the service-unavailable condition. The body of \<open>predict_single\<close> raises the 503, but
  inside the \<open>try\<close> whose handler catches every \<open>Exception\<close>: what the caller receives
  is a 500 whose detail quotes the 503, however many member models are loaded.
\<close>

theorem predict_single_without_ensemble:
  "get_model reg ''ensemble'' = None \<Longrightarrow>
   predict_single cfg now reg request =
     Inl (HTTPException HTTP_500_INTERNAL_SERVER_ERROR
            ''Prediction failed: 503: Ensemble model not available'')"
  by (simp add: predict_single_def predict_single_body_def)

theorem predict_single_without_ensemble_witness:
  "get_model members_only ''ensemble'' = None \<and>
   (\<forall>n. (n \<in> set member_names) = (get_model members_only n \<noteq> None)) \<and>
   predict_single settings 0 members_only kedarnath_request =
     Inl (HTTPException HTTP_500_INTERNAL_SERVER_ERROR
            ''Prediction failed: 503: Ensemble model not available'')"
  using predict_single_without_ensemble [of members_only settings 0 kedarnath_request]
  by (auto simp add: get_model_def members_only_def member_names_def)

section \<open>Confidence from the disagreement of the members\<close>








section \<open>Readiness of the registry\<close>

text \<open>
  C7 as stated fails: on a freshly constructed registry \<open>save_model("ensemble", ...)\<close>
  fills the ensemble slot, and \<open>is_ready\<close> is still false, since \<open>loaded\<close> is.
\<close>

theorem is_ready_after_save_counterexample:
  "save_model True ''ensemble'' (stub_model (1 / 2)) None init_registry =
     Inr (init_registry \<lparr> models := [''ensemble'' \<mapsto> stub_model (1 / 2)] \<rparr>) \<and>
   ''ensemble'' \<in> dom (models (init_registry \<lparr> models := [''ensemble'' \<mapsto> stub_model (1 / 2)] \<rparr>)) \<and>
   \<not> is_ready (init_registry \<lparr> models := [''ensemble'' \<mapsto> stub_model (1 / 2)] \<rparr>)"
  by (simp add: save_model_def init_registry_def is_ready_def)

text \<open>
  C7, amended. \<open>is_ready\<close> is true if and only if the \<open>loaded\<close> flag is set and the
  ensemble slot is populated. No other slot matters: changing the slot of any other name
  leaves readiness as it was, and after a successful \<open>save_model("ensemble", ...)\<close>
  readiness is the value of \<open>loaded\<close>.
\<close>

theorem is_ready_iff_loaded_and_ensemble:
  "is_ready reg = (loaded reg \<and> get_model reg ''ensemble'' \<noteq> None) \<and>
   (model_name \<noteq> ''ensemble'' \<longrightarrow>
      is_ready (reg \<lparr> models := (models reg)(model_name := slot) \<rparr>) = is_ready reg) \<and>
   (save_model True ''ensemble'' m md reg = Inr reg' \<longrightarrow> is_ready reg' = loaded reg)"
  by (auto simp add: is_ready_def get_model_def save_model_def Let_def
      split: option.splits if_splits)

theorem is_ready_iff_loaded_and_ensemble_witness:
  "''xgboost'' \<noteq> ''ensemble'' \<and>
   is_ready two_member_registry \<and>
   is_ready (two_member_registry \<lparr> models := (models two_member_registry)(''xgboost'' := None) \<rparr>) \<and>
   (\<exists>reg'. save_model True ''ensemble'' (stub_model (1 / 2)) None two_member_registry = Inr reg' \<and>
      is_ready reg')"
  using is_ready_iff_loaded_and_ensemble [of two_member_registry "''xgboost''" None
      "stub_model (1 / 2)" None
      "two_member_registry \<lparr> models := (models two_member_registry)(''ensemble'' \<mapsto> stub_model (1 / 2)) \<rparr>"]
  by (simp add: two_member_registry_def get_model_def save_model_def)

section \<open>Loading with nothing loadable\<close>

lemma load_one_not_loadable:
  "\<not> loadable (store n) \<Longrightarrow>
   snd (load_one store n (reg, c)) = c \<and>
   model_metadata (fst (load_one store n (reg, c))) = model_metadata reg"
  by (cases "store n" rule: loadable.cases) (simp_all add: load_one_def)

lemma fold_load_one_not_loadable:
  "\<forall>n \<in> set ns. \<not> loadable (store n) \<Longrightarrow>
   snd (fold (load_one store) ns (reg, c)) = c \<and>
   model_metadata (fst (fold (load_one store) ns (reg, c))) = model_metadata reg"
proof (induction ns arbitrary: reg)
  case Nil
  then show ?case by simp
next
  case (Cons n ns)
  obtain reg1 c1 where st: "load_one store n (reg, c) = (reg1, c1)"
    by (cases "load_one store n (reg, c)")
  from Cons.prems have nl: "\<not> loadable (store n)" by simp
  from load_one_not_loadable [of store n reg c] nl st
  have c1: "c1 = c" and md: "model_metadata reg1 = model_metadata reg" by simp_all
  from Cons.prems have rest: "\<forall>n \<in> set ns. \<not> loadable (store n)" by simp
  from Cons.IH [OF rest, of reg1] show ?case by (simp add: st c1 md)
qed

text \<open>
  C8 as stated fails: with an empty artifact store the ensemble slot is filled by the
  stand-in, and the metadata of that slot carries no \<open>is_fallback\<close> entry.
\<close>

theorem dummy_models_unflagged_counterexample:
  "get_model (load_models (\<lambda>_. Missing) (stub_model (1 / 2)) (stub_model 0) init_registry)
      ''ensemble'' = Some (stub_model (1 / 2)) \<and>
   get_metadata (load_models (\<lambda>_. Missing) (stub_model (1 / 2)) (stub_model 0) init_registry)
      ''ensemble'' ''is_fallback'' \<noteq> Some (MetaBool True)"
  by (simp add: load_models_def model_files_def load_one_def create_dummy_models_def
      get_model_def get_metadata_def init_registry_def)

text \<open>
  C8, amended. If no slot of \<open>model_files\<close> is loadable, \<open>load_models\<close> puts the
  stand-in model into the ensemble slot and the five member slots and the stand-in scaler
  into the preprocessor slot, and the registry is ready. The metadata map is left as it
  was before the call: on a fresh registry the metadata of the ensemble slot is the empty
  dictionary, with no \<open>is_fallback\<close> entry.
\<close>

theorem load_models_nothing_loadable:
  assumes "\<forall>n \<in> set model_files. \<not> loadable (store n)"
  shows "get_model (load_models store dummy_model scaler reg) ''ensemble'' = Some dummy_model \<and>
     (\<forall>n \<in> set member_names.
        get_model (load_models store dummy_model scaler reg) n = Some dummy_model) \<and>
     get_model (load_models store dummy_model scaler reg) ''preprocessor'' = Some scaler \<and>
     is_ready (load_models store dummy_model scaler reg) \<and>
     model_metadata (load_models store dummy_model scaler reg) = model_metadata reg \<and>
     get_metadata (load_models store dummy_model scaler init_registry) ''ensemble'' = Map.empty"
proof -
  have res: "snd (fold (load_one store) model_files (r, 0)) = 0 \<and>
     model_metadata (fst (fold (load_one store) model_files (r, 0))) = model_metadata r" for r
    using fold_load_one_not_loadable [OF assms] by blast
  have shape: "load_models store dummy_model scaler r =
      (create_dummy_models dummy_model scaler (fst (fold (load_one store) model_files (r, 0))))
        \<lparr> loaded := True \<rparr>" for r
    using res [of r]
    by (cases "fold (load_one store) model_files (r, 0)") (simp add: load_models_def)
  show ?thesis
    using res [of reg] res [of init_registry]
    by (simp add: shape create_dummy_models_def get_model_def is_ready_def member_names_def
        get_metadata_def init_registry_def)
qed

theorem load_models_nothing_loadable_witness:
  "(\<forall>n. \<not> loadable ((\<lambda>_. Missing) n)) \<and>
   get_model (load_models (\<lambda>_. Missing) (stub_model (1 / 2)) (stub_model 0) init_registry)
      ''ensemble'' = Some (stub_model (1 / 2)) \<and>
   is_ready (load_models (\<lambda>_. Missing) (stub_model (1 / 2)) (stub_model 0) init_registry) \<and>
   get_metadata (load_models (\<lambda>_. Missing) (stub_model (1 / 2)) (stub_model 0) init_registry)
      ''ensemble'' = Map.empty"
  using load_models_nothing_loadable [of "\<lambda>_. Missing" "stub_model (1 / 2)" "stub_model 0" init_registry]
  by simp

section \<open>The feature vector of the bridge\<close>

text \<open>
  C3. When the model declares its feature names, the vector handed to the model should
  carry the derived values of \<open>mapped_features\<close>. It does not: the vector is looked up,
  name by name, in the caller's dictionary, with 0.0 for a name the caller did not send.
  With the six derived names declared and readings that make every derived value 1, the
  model receives six zeros.
\<close>

theorem build_features_ignores_mapped_features:
  "feature_names self = Some names \<Longrightarrow> names \<noteq> [] \<Longrightarrow>
   build_features self current_month d = map (\<lambda>n. dict_get d n 0) names"
  by (cases names) (simp_all add: build_features_def)

theorem build_features_ignores_mapped_features_witness:
  "feature_names sample_predictor = Some derived_names \<and> derived_names \<noteq> [] \<and>
   build_features sample_predictor 7 heavy_rain = [0, 0, 0, 0, 0, 0] \<and>
   map (\<lambda>n. dict_get (mapped_features 7 heavy_rain) n 0) derived_names = [1, 1, 1, 1, 1, 1]"
  using build_features_ignores_mapped_features [of sample_predictor derived_names 7 heavy_rain]
  by (simp add: sample_predictor_def derived_names_def heavy_rain_def dict_get_def
      mapped_features_def)

section \<open>The district multiplier\<close>

lemma lookup_district_multiplier: "1 \<le> risk_multiplier (lookup_district district label)"
  by (simp add: lookup_district_def default_district_info_def
      split: cell.splits list.splits option.splits)

lemma get_district_info_multiplier:
  "1 \<le> risk_multiplier (fst (get_district_info self latitude longitude))"
  by (simp add: get_district_info_def default_district_info_def lookup_district_multiplier Let_def
      split: option.splits prod.splits)

lemma get_district_info_frame:
  "get_district_info self latitude longitude = (info, self1) \<Longrightarrow>
   model self1 = model self \<and> feature_names self1 = feature_names self \<and>
   district_df self1 = district_df self"
  by (auto simp add: get_district_info_def Let_def split: option.splits prod.splits if_splits)

lemma build_features_cong:
  "feature_names self1 = feature_names self \<Longrightarrow>
   build_features self1 current_month d = build_features self current_month d"
  by (simp add: build_features_def)

lemma lower_chamoli: "lower ''Chamoli'' = ''chamoli'' \<and> lower ''chamoli'' = ''chamoli''"
  by code_simp

lemma sample_district_info:
  "get_district_info sample_predictor 0 0 =
     (\<lparr> district_rank = 36, district_name = ''Chamoli'', state_name = Str ''Uttarakhand'',
        risk_multiplier = 15 / 10 \<rparr>,
      sample_predictor \<lparr> events_df := Some (set_column sample_events ''dist'' [0]) \<rparr>)"
  by (simp add: get_district_info_def sample_predictor_def sample_events_def sample_districts_def
      df_empty_def planar_distance_def row_get_def set_column_def lookup_district_def
      district_matches_def lower_chamoli py_int_def Let_def)

lemma sample_predict:
  "fst (predict sample_predictor 7 heavy_rain 0 0) =
     \<lparr> res_success = True, res_error = None, res_ml_probability = 75 / 100,
       res_raw_probability = Some (5 / 10), res_risk_level = ''HIGH'', res_confidence = 5 / 10,
       res_feature_count = Some 6,
       res_district_info = Some \<lparr> district_rank = 36, district_name = ''Chamoli'',
         state_name = Str ''Uttarakhand'', risk_multiplier = 15 / 10 \<rparr> \<rparr>"
proof -
  have m: "predict_proba (model sample_predictor) fs = Some (5 / 10)" for fs
    by (simp add: sample_predictor_def stub_model_def)
  have n: "length (build_features (sample_predictor \<lparr> events_df := Some (set_column sample_events ''dist'' [0]) \<rparr>)
      7 heavy_rain) = 6"
    by (simp add: sample_predictor_def build_features_def derived_names_def)
  show ?thesis
    by (simp add: predict_def sample_district_info Let_def adjust_probability_def m n)
qed

lemma failing_predict:
  "fst (predict failing_predictor 7 heavy_rain 0 0) =
     \<lparr> res_success = False, res_error = Some ''ML prediction failed: model call failed'',
       res_ml_probability = 5 / 10,
       res_raw_probability = None, res_risk_level = ''UNKNOWN'', res_confidence = 0,
       res_feature_count = None, res_district_info = None \<rparr>"
  by (simp add: predict_def get_district_info_def failing_predictor_def)

text \<open>
  C5. In every successful run of \<open>predict\<close> the reported probability is the model's
  probability times the district multiplier, cut off at 1, and the multiplier is at least
  1. The adjustment \<open>min (p * m) 1\<close> never exceeds 1 and, for \<open>p\<close> not below 0, does not
  decrease when the multiplier grows; 0.5 with 1.5 gives 0.75, and 0.6 with 1.8 gives 1.
\<close>

theorem adjusted_probability_clamped_monotone:
  "(res_success (fst (predict self current_month d latitude longitude)) \<longrightarrow>
      (\<exists>probability info.
         res_raw_probability (fst (predict self current_month d latitude longitude)) = Some probability \<and>
         res_district_info (fst (predict self current_month d latitude longitude)) = Some info \<and>
         info = fst (get_district_info self latitude longitude) \<and>
         1 \<le> risk_multiplier info \<and>
         res_ml_probability (fst (predict self current_month d latitude longitude)) =
           min (probability * risk_multiplier info) 1)) \<and>
   adjust_probability p m = min (p * m) 1 \<and>
   adjust_probability p m \<le> 1 \<and>
   (0 \<le> p \<and> m \<le> m' \<longrightarrow> adjust_probability p m \<le> adjust_probability p m') \<and>
   adjust_probability (5 / 10) (15 / 10) = 75 / 100 \<and>
   adjust_probability (6 / 10) (18 / 10) = 1"
proof -
  have mono: "0 \<le> p \<and> m \<le> m' \<longrightarrow> adjust_probability p m \<le> adjust_probability p m'"
  proof
    assume h: "0 \<le> p \<and> m \<le> m'"
    then have "p * m \<le> p * m'" by (simp add: mult_left_mono)
    then show "adjust_probability p m \<le> adjust_probability p m'"
      unfolding adjust_probability_def by (rule min.mono) simp
  qed
  have run: "res_success (fst (predict self current_month d latitude longitude)) \<longrightarrow>
      (\<exists>probability info.
         res_raw_probability (fst (predict self current_month d latitude longitude)) = Some probability \<and>
         res_district_info (fst (predict self current_month d latitude longitude)) = Some info \<and>
         info = fst (get_district_info self latitude longitude) \<and>
         1 \<le> risk_multiplier info \<and>
         res_ml_probability (fst (predict self current_month d latitude longitude)) =
           min (probability * risk_multiplier info) 1)"
    using get_district_info_multiplier [of self latitude longitude]
    by (cases "get_district_info self latitude longitude")
      (auto simp add: predict_def Let_def adjust_probability_def split: option.splits)
  show ?thesis
    using mono run by (simp add: adjust_probability_def)
qed

theorem adjusted_probability_clamped_monotone_witness:
  "res_success (fst (predict sample_predictor 7 heavy_rain 0 0)) \<and>
   res_raw_probability (fst (predict sample_predictor 7 heavy_rain 0 0)) = Some (5 / 10) \<and>
   risk_multiplier (fst (get_district_info sample_predictor 0 0)) = 15 / 10 \<and>
   res_ml_probability (fst (predict sample_predictor 7 heavy_rain 0 0)) = 75 / 100 \<and>
   (0::real) \<le> 6 / 10 \<and> (15 / 10 :: real) \<le> 18 / 10 \<and>
   adjust_probability (6 / 10) (15 / 10) \<le> adjust_probability (6 / 10) (18 / 10)"
  using adjusted_probability_clamped_monotone
      [of sample_predictor 7 heavy_rain 0 0 "6 / 10" "15 / 10" "18 / 10"]
    sample_predict sample_district_info
  by simp

section \<open>The tiers of the bridge\<close>

text \<open>
  C10. \<open>predict\<close> succeeds exactly when the model call returns. On success the risk level
  is the four-tier value of the adjusted probability \<open>p\<close>: LOW below 0.3, MODERATE on
  [0.3, 0.6), HIGH on [0.6, 0.8), CRITICAL from 0.8 on, which is what
  \<open>determine_final_risk\<close> computes. On failure the risk level is UNKNOWN, the probability
  0.5 and the confidence 0.0. The level is never one of the names or values of
  the five-tier tiers VERY_LOW and SEVERE.
\<close>

theorem predict_risk_level_four_tiers:
  "res_success (fst (predict self current_month d latitude longitude)) =
     (predict_proba (model self) (build_features self current_month d) \<noteq> None) \<and>
   (if res_success (fst (predict self current_month d latitude longitude))
    then res_risk_level (fst (predict self current_month d latitude longitude)) =
           determine_final_risk (res_ml_probability (fst (predict self current_month d latitude longitude))) \<and>
         res_risk_level (fst (predict self current_month d latitude longitude)) =
           (if res_ml_probability (fst (predict self current_month d latitude longitude)) < 3 / 10
            then ''LOW''
            else if res_ml_probability (fst (predict self current_month d latitude longitude)) < 6 / 10
            then ''MODERATE''
            else if res_ml_probability (fst (predict self current_month d latitude longitude)) < 8 / 10
            then ''HIGH''
            else ''CRITICAL'') \<and>
         res_risk_level (fst (predict self current_month d latitude longitude))
           \<in> {''LOW'', ''MODERATE'', ''HIGH'', ''CRITICAL''}
    else res_risk_level (fst (predict self current_month d latitude longitude)) = ''UNKNOWN'' \<and>
         res_ml_probability (fst (predict self current_month d latitude longitude)) = 5 / 10 \<and>
         res_confidence (fst (predict self current_month d latitude longitude)) = 0) \<and>
   res_risk_level (fst (predict self current_month d latitude longitude))
     \<notin> {''VERY_LOW'', ''SEVERE'', ''Very Low'', ''Severe''}"
proof -
  obtain info self1 where g: "get_district_info self latitude longitude = (info, self1)"
    by (cases "get_district_info self latitude longitude")
  from get_district_info_frame [OF g]
  have m: "model self1 = model self" and f: "feature_names self1 = feature_names self"
    by simp_all
  have b: "build_features self1 current_month d = build_features self current_month d"
    using f by (rule build_features_cong)
  show ?thesis
    by (cases "predict_proba (model self) (build_features self current_month d)")
      (simp_all add: predict_def g m b Let_def determine_final_risk_def)
qed

theorem predict_risk_level_four_tiers_witness:
  "res_success (fst (predict sample_predictor 7 heavy_rain 0 0)) \<and>
   res_ml_probability (fst (predict sample_predictor 7 heavy_rain 0 0)) = 75 / 100 \<and>
   res_risk_level (fst (predict sample_predictor 7 heavy_rain 0 0)) = ''HIGH'' \<and>
   determine_final_risk (75 / 100) = ''HIGH'' \<and>
   \<not> res_success (fst (predict failing_predictor 7 heavy_rain 0 0)) \<and>
   res_risk_level (fst (predict failing_predictor 7 heavy_rain 0 0)) = ''UNKNOWN'' \<and>
   res_ml_probability (fst (predict failing_predictor 7 heavy_rain 0 0)) = 5 / 10 \<and>
   res_confidence (fst (predict failing_predictor 7 heavy_rain 0 0)) = 0"
  using predict_risk_level_four_tiers [of sample_predictor 7 heavy_rain 0 0]
    predict_risk_level_four_tiers [of failing_predictor 7 heavy_rain 0 0]
    sample_predict failing_predict
  by simp

section \<open>The historical score\<close>






lemma those_map_length: "those (map f xs) = Some ys \<Longrightarrow> length ys = length xs"
  by (induction xs arbitrary: ys) (auto split: option.splits)









lemma haversine_same_point: "haversine_distance 0 0 0 0 = 0"
  by (simp add: haversine_distance_def radians_def arctan2_def)


lemma sample_distances:
  "those (map (event_distance 0 0) (rows sample_events)) = Some [0]"
  by (simp add: sample_events_def event_distance_def haversine_same_point)




section \<open>What the lookups do to the reference tables\<close>

lemma set_column_frame:
  assumes "length series = length (rows df)"
  shows "length (rows (set_column df name series)) = length (rows df) \<and>
     (\<forall>i < length (rows df). \<forall>c. c \<noteq> name \<longrightarrow>
        (rows (set_column df name series) ! i) c = (rows df ! i) c) \<and>
     (\<forall>i < length (rows df). (rows (set_column df name series) ! i) name = Some (Num (series ! i))) \<and>
     (\<forall>c. c \<noteq> name \<longrightarrow> (c \<in> set (columns (set_column df name series))) = (c \<in> set (columns df))) \<and>
     name \<in> set (columns (set_column df name series))"
  using assms by (simp add: set_column_def)

lemma historical_score_state:
  "snd (get_historical_score self latitude longitude radius_km) =
     (case events_df self of
        None \<Rightarrow> self
      | Some events \<Rightarrow>
          if \<not> df_empty events \<and> ''latitude'' \<in> set (columns events) \<and>
             ''longitude'' \<in> set (columns events)
          then (case those (map (event_distance latitude longitude) (rows events)) of
                  None \<Rightarrow> self
                | Some distances \<Rightarrow>
                    self \<lparr> events_df := Some (set_column events ''distance'' distances) \<rparr>)
          else self)"
  by (simp add: get_historical_score_def Let_def split: option.splits)

lemma district_info_state:
  "snd (get_district_info self latitude longitude) =
     (case (district_df self, events_df self) of
        (Some district, Some events) \<Rightarrow>
          if \<not> df_empty district \<and> \<not> df_empty events \<and> ''latitude'' \<in> set (columns events) \<and>
             ''longitude'' \<in> set (columns events)
          then (case those (map (planar_distance latitude longitude) (rows events)) of
                  None \<Rightarrow> self
                | Some dists \<Rightarrow> self \<lparr> events_df := Some (set_column events ''dist'' dists) \<rparr>)
          else self
      | _ \<Rightarrow> self)"
  by (simp add: get_district_info_def Let_def split: option.splits prod.splits)


lemma sample_score_state:
  "snd (get_historical_score sample_predictor 0 0 50) =
     sample_predictor \<lparr> events_df := Some (set_column sample_events ''distance'' [0]) \<rparr>"
proof -
  have a: "events_df sample_predictor = Some sample_events"
    by (simp add: sample_predictor_def)
  have b: "\<not> df_empty sample_events \<and> ''latitude'' \<in> set (columns sample_events) \<and>
      ''longitude'' \<in> set (columns sample_events)"
    by (simp add: sample_events_def df_empty_def)
  show ?thesis
    by (simp add: historical_score_state a b sample_distances)
qed

lemma sample_columns:
  "columns sample_events = [''latitude'', ''longitude'', ''district''] \<and>
   columns (set_column sample_events ''distance'' [0]) =
     [''latitude'', ''longitude'', ''district'', ''distance''] \<and>
   columns (set_column sample_events ''dist'' [0]) =
     [''latitude'', ''longitude'', ''district'', ''dist'']"
  by (simp add: sample_events_def set_column_def)

text \<open>
  C9 as stated fails: on a table with one event, both lookups hand back a predictor whose
  events table has one column more than before, \<open>distance\<close> after
  \<open>get_historical_score\<close> and \<open>dist\<close> after \<open>get_district_info\<close>.
\<close>

theorem events_table_assigned_counterexample:
  "events_df sample_predictor = Some sample_events \<and>
   events_df (snd (get_historical_score sample_predictor 0 0 50)) =
     Some (set_column sample_events ''distance'' [0]) \<and>
   events_df (snd (get_district_info sample_predictor 0 0)) =
     Some (set_column sample_events ''dist'' [0]) \<and>
   set_column sample_events ''distance'' [0] \<noteq> sample_events \<and>
   set_column sample_events ''dist'' [0] \<noteq> sample_events"
proof -
  have a: "events_df sample_predictor = Some sample_events"
    by (simp add: sample_predictor_def)
  have d1: "set_column sample_events ''distance'' [0] \<noteq> sample_events"
  proof
    assume "set_column sample_events ''distance'' [0] = sample_events"
    then have "columns (set_column sample_events ''distance'' [0]) = columns sample_events"
      by simp
    then show False by (simp add: sample_columns)
  qed
  have d2: "set_column sample_events ''dist'' [0] \<noteq> sample_events"
  proof
    assume "set_column sample_events ''dist'' [0] = sample_events"
    then have "columns (set_column sample_events ''dist'' [0]) = columns sample_events"
      by simp
    then show False by (simp add: sample_columns)
  qed
  show ?thesis
    using a d1 d2 by (simp add: sample_score_state sample_district_info)
qed

section \<open>Text ranks in the district table\<close>

lemma py_int_text_samples:
  "py_int_text ''36'' = Some 36 \<and> py_int_text '' 3_6 '' = Some 36 \<and> py_int_text ''-7'' = Some (- 7) \<and>
   py_int_text ''+007'' = Some 7 \<and>
   py_int_text ''36.0'' = None \<and> py_int_text ''_3'' = None \<and> py_int_text ''3_'' = None \<and>
   py_int_text ''3__6'' = None \<and> py_int_text '''' = None \<and> py_int_text ''- 3'' = None \<and>
   py_int_text ''high'' = None"
  by code_simp

lemma lookup_district_text_rank:
  "lookup_district text_rank_districts (Str ''Chamoli'') =
     \<lparr> district_rank = 36, district_name = ''Chamoli'', state_name = Str ''Uttarakhand'',
       risk_multiplier = 1 \<rparr>"
proof -
  have p: "py_int_text ''36'' = Some 36" by code_simp
  show ?thesis
    by (simp add: lookup_district_def text_rank_districts_def district_matches_def lower_chamoli
        row_get_def p)
qed

section \<open>The exact effect of the lookups on the tables\<close>

lemma those_map_nth:
  "those (map f xs) = Some ys \<Longrightarrow> \<forall>i < length xs. f (xs ! i) = Some (ys ! i)"
proof (induction xs arbitrary: ys)
  case Nil
  then show ?case by simp
next
  case (Cons x xs)
  from Cons.prems obtain y zs where
    fx: "f x = Some y" and rest: "those (map f xs) = Some zs" and ys: "ys = y # zs"
    by (auto split: option.splits)
  from Cons.IH [OF rest] have ih: "\<forall>i < length xs. f (xs ! i) = Some (zs ! i)" .
  show ?case
  proof (intro allI impI)
    fix i
    assume "i < length (x # xs)"
    then show "f ((x # xs) ! i) = Some (ys ! i)"
      using fx ih ys by (cases i) simp_all
  qed
qed

lemma set_column_new_label:
  "name \<notin> set (columns df) \<Longrightarrow> set_column df name series \<noteq> df"
proof
  assume n: "name \<notin> set (columns df)" and eq: "set_column df name series = df"
  from eq have "columns (set_column df name series) = columns df" by simp
  with n show False by (simp add: set_column_def)
qed

lemma set_column_labels:
  "set (columns (set_column df name series)) = insert name (set (columns df))"
  by (auto simp add: set_column_def)

text \<open>
  C9, amended. Both lookups leave the district-rank table as it was. The events table
  after \<open>get_historical_score\<close> is the table before it with the column \<open>distance\<close>
  assigned, exactly when the table is present, not empty, has the columns \<open>latitude\<close>
  and \<open>longitude\<close>, and every row yields a haversine distance; in every other case it
  is the table before the call. The same holds for \<open>get_district_info\<close> with the column
  \<open>dist\<close> and the planar distances, under the further condition that the district
  table is present and not empty. An assignment keeps the number of rows, every cell of
  every other column and every other column label, writes each row's distance into the
  assigned column, and yields a table different from the one before when the label is new.
\<close>

theorem reference_tables_frame:
  "district_df (snd (get_historical_score self latitude longitude radius_km)) = district_df self \<and>
   district_df (snd (get_district_info self latitude longitude)) = district_df self \<and>
   events_df (snd (get_historical_score self latitude longitude radius_km)) =
     (case events_df self of
        None \<Rightarrow> None
      | Some events \<Rightarrow>
          if \<not> df_empty events \<and> ''latitude'' \<in> set (columns events) \<and>
             ''longitude'' \<in> set (columns events)
          then (case those (map (event_distance latitude longitude) (rows events)) of
                  None \<Rightarrow> Some events
                | Some distances \<Rightarrow> Some (set_column events ''distance'' distances))
          else Some events) \<and>
   events_df (snd (get_district_info self latitude longitude)) =
     (case events_df self of
        None \<Rightarrow> None
      | Some events \<Rightarrow>
          if (case district_df self of None \<Rightarrow> False | Some district \<Rightarrow> \<not> df_empty district) \<and>
             \<not> df_empty events \<and> ''latitude'' \<in> set (columns events) \<and>
             ''longitude'' \<in> set (columns events)
          then (case those (map (planar_distance latitude longitude) (rows events)) of
                  None \<Rightarrow> Some events
                | Some dists \<Rightarrow> Some (set_column events ''dist'' dists))
          else Some events) \<and>
   (those (map f (rows df)) = Some series \<longrightarrow>
      length (rows (set_column df name series)) = length (rows df) \<and>
      (\<forall>i < length (rows df).
         f (rows df ! i) = Some (series ! i) \<and>
         (rows (set_column df name series) ! i) name = Some (Num (series ! i)) \<and>
         (\<forall>c. c \<noteq> name \<longrightarrow> (rows (set_column df name series) ! i) c = (rows df ! i) c)) \<and>
      set (columns (set_column df name series)) = insert name (set (columns df)) \<and>
      (name \<notin> set (columns df) \<longrightarrow> set_column df name series \<noteq> df))"
proof -
  have d1: "district_df (snd (get_historical_score self latitude longitude radius_km)) = district_df self"
    by (simp add: historical_score_state split: option.splits)
  have d2: "district_df (snd (get_district_info self latitude longitude)) = district_df self"
    by (simp add: district_info_state split: option.splits)
  have e1: "events_df (snd (get_historical_score self latitude longitude radius_km)) =
     (case events_df self of
        None \<Rightarrow> None
      | Some events \<Rightarrow>
          if \<not> df_empty events \<and> ''latitude'' \<in> set (columns events) \<and>
             ''longitude'' \<in> set (columns events)
          then (case those (map (event_distance latitude longitude) (rows events)) of
                  None \<Rightarrow> Some events
                | Some distances \<Rightarrow> Some (set_column events ''distance'' distances))
          else Some events)"
    by (simp add: historical_score_state split: option.splits)
  have e2: "events_df (snd (get_district_info self latitude longitude)) =
     (case events_df self of
        None \<Rightarrow> None
      | Some events \<Rightarrow>
          if (case district_df self of None \<Rightarrow> False | Some district \<Rightarrow> \<not> df_empty district) \<and>
             \<not> df_empty events \<and> ''latitude'' \<in> set (columns events) \<and>
             ''longitude'' \<in> set (columns events)
          then (case those (map (planar_distance latitude longitude) (rows events)) of
                  None \<Rightarrow> Some events
                | Some dists \<Rightarrow> Some (set_column events ''dist'' dists))
          else Some events)"
    by (simp add: district_info_state split: option.splits)
  have col: "those (map f (rows df)) = Some series \<longrightarrow>
      length (rows (set_column df name series)) = length (rows df) \<and>
      (\<forall>i < length (rows df).
         f (rows df ! i) = Some (series ! i) \<and>
         (rows (set_column df name series) ! i) name = Some (Num (series ! i)) \<and>
         (\<forall>c. c \<noteq> name \<longrightarrow> (rows (set_column df name series) ! i) c = (rows df ! i) c)) \<and>
      set (columns (set_column df name series)) = insert name (set (columns df)) \<and>
      (name \<notin> set (columns df) \<longrightarrow> set_column df name series \<noteq> df)"
  proof
    assume t: "those (map f (rows df)) = Some series"
    have len: "length series = length (rows df)" using t by (rule those_map_length)
    from set_column_frame [OF len, of name] those_map_nth [OF t]
      set_column_labels [of df name series] set_column_new_label [of name df series]
    show "length (rows (set_column df name series)) = length (rows df) \<and>
      (\<forall>i < length (rows df).
         f (rows df ! i) = Some (series ! i) \<and>
         (rows (set_column df name series) ! i) name = Some (Num (series ! i)) \<and>
         (\<forall>c. c \<noteq> name \<longrightarrow> (rows (set_column df name series) ! i) c = (rows df ! i) c)) \<and>
      set (columns (set_column df name series)) = insert name (set (columns df)) \<and>
      (name \<notin> set (columns df) \<longrightarrow> set_column df name series \<noteq> df)"
      by blast
  qed
  show ?thesis
    using d1 d2 e1 e2 col by (intro conjI) assumption+
qed

lemma sample_planar_distances:
  "those (map (planar_distance 0 0) (rows sample_events)) = Some [0]"
  by (simp add: sample_events_def planar_distance_def row_get_def)

theorem reference_tables_frame_witness:
  "events_df sample_predictor = Some sample_events \<and>
   those (map (event_distance 0 0) (rows sample_events)) = Some [0] \<and>
   those (map (planar_distance 0 0) (rows sample_events)) = Some [0] \<and>
   ''distance'' \<notin> set (columns sample_events) \<and>
   district_df (snd (get_historical_score sample_predictor 0 0 50)) = district_df sample_predictor \<and>
   district_df (snd (get_district_info sample_predictor 0 0)) = district_df sample_predictor \<and>
   events_df (snd (get_historical_score sample_predictor 0 0 50)) =
     Some (set_column sample_events ''distance'' [0]) \<and>
   events_df (snd (get_district_info sample_predictor 0 0)) =
     Some (set_column sample_events ''dist'' [0]) \<and>
   set_column sample_events ''distance'' [0] \<noteq> sample_events \<and>
   events_df (snd (get_historical_score unlocated_predictor 0 0 50)) = events_df unlocated_predictor \<and>
   events_df (snd (get_district_info unlocated_predictor 0 0)) = events_df unlocated_predictor"
proof -
  have a: "events_df sample_predictor = Some sample_events"
    "district_df sample_predictor = Some sample_districts"
    by (simp_all add: sample_predictor_def)
  have b: "\<not> df_empty sample_events" "''latitude'' \<in> set (columns sample_events)"
    "''longitude'' \<in> set (columns sample_events)" "''distance'' \<notin> set (columns sample_events)"
    "\<not> df_empty sample_districts"
    by (simp_all add: sample_events_def sample_districts_def df_empty_def)
  have u: "events_df unlocated_predictor = Some unlocated_events"
    "''latitude'' \<notin> set (columns unlocated_events)"
    by (simp_all add: unlocated_predictor_def unlocated_events_def)
  note near = reference_tables_frame [where self = sample_predictor and latitude = 0 and longitude = 0
      and radius_km = 50 and f = "event_distance 0 0" and df = sample_events
      and series = "[0]" and name = "''distance''"]
  note off = reference_tables_frame [where self = unlocated_predictor and latitude = 0 and longitude = 0
      and radius_km = 50 and f = "event_distance 0 0" and df = sample_events
      and series = "[0]" and name = "''distance''"]
  have n1: "district_df (snd (get_historical_score sample_predictor 0 0 50)) = district_df sample_predictor"
    using near by blast
  have n2: "district_df (snd (get_district_info sample_predictor 0 0)) = district_df sample_predictor"
    using near by blast
  have n3: "events_df (snd (get_historical_score sample_predictor 0 0 50)) =
      Some (set_column sample_events ''distance'' [0])"
    using near by (simp add: a b sample_distances)
  have n4: "events_df (snd (get_district_info sample_predictor 0 0)) =
      Some (set_column sample_events ''dist'' [0])"
    using near by (simp add: a b sample_planar_distances)
  have n5: "set_column sample_events ''distance'' [0] \<noteq> sample_events"
    using near sample_distances b(4) by blast
  have o1: "events_df (snd (get_historical_score unlocated_predictor 0 0 50)) = events_df unlocated_predictor"
    using off by (simp add: u)
  have o2: "events_df (snd (get_district_info unlocated_predictor 0 0)) = events_df unlocated_predictor"
    using off by (simp add: u)
  show ?thesis
    using a(1) sample_distances sample_planar_distances b(4) n1 n2 n3 n4 n5 o1 o2
    by (intro conjI) assumption+
qed

end
